theory Spec2Isabelle
  imports Complex_Main "HOL-Library.Sublist"
begin

section \<open>Python values\<close>

text \<open>
  A Python \<open>str\<close> is a sequence of Unicode code points, so a text is a list of code
  points; \<open>str\<close> turns an ASCII literal into one. Python floats are modelled as exact
  reals (no rounding); \<open>int(x)\<close> on a float truncates toward zero.
\<close>

type_synonym unicode = "nat list"

definition str :: "string \<Rightarrow> unicode" where
  "str s = map of_char s"

datatype py_error = ZeroDivisionError | OverflowError | MemoryError

definition py_int :: "real \<Rightarrow> int" where
  "py_int x = (if 0 \<le> x then \<lfloor>x\<rfloor> else \<lceil>x\<rceil>)"

text \<open>\<open>py_truediv\<close> is Python's \<open>/\<close> on numbers: it raises on a zero divisor.\<close>

definition py_truediv :: "real \<Rightarrow> real \<Rightarrow> py_error + real" where
  "py_truediv a b = (if b = 0 then Inl ZeroDivisionError else Inr (a / b))"

text \<open>
  \<open>py_float\<close> is the conversion of an int to a float, which \<open>int * float\<close> performs on
  its int operand: it raises \<open>OverflowError\<close> once the int rounds to a magnitude beyond the
  largest double, that is from \<open>2 ^ 1024 - 2 ^ 970\<close> on.
\<close>

definition float_int_limit :: int where
  "float_int_limit = 2 ^ 1024 - 2 ^ 970"

definition py_float :: "int \<Rightarrow> py_error + real" where
  "py_float n =
     (if - float_int_limit < n \<and> n < float_int_limit then Inr (real_of_int n)
      else Inl OverflowError)"

text \<open>The characters \<open>str.isspace\<close> accepts; \<open>str.split()\<close> and \<open>str.strip()\<close> cut at them.\<close>

definition isspace :: "nat \<Rightarrow> bool" where
  "isspace c = ((9 \<le> c \<and> c \<le> 13) \<or> (28 \<le> c \<and> c \<le> 32) \<or> c = 133 \<or> c = 160
      \<or> c = 5760 \<or> (8192 \<le> c \<and> c \<le> 8202) \<or> c = 8232 \<or> c = 8233 \<or> c = 8239
      \<or> c = 8287 \<or> c = 12288)"

definition str_strip :: "unicode \<Rightarrow> unicode" where
  "str_strip t = rev (dropWhile isspace (rev (dropWhile isspace t)))"

text \<open>
  \<open>split_words cur t\<close> is \<open>str.split()\<close> with the word being read in \<open>cur\<close> (reversed):
  runs of whitespace separate words and no empty word is produced.
\<close>

fun split_words :: "unicode \<Rightarrow> unicode \<Rightarrow> unicode list" where
  "split_words cur [] = (if cur = [] then [] else [rev cur])"
| "split_words cur (c # cs) =
     (if isspace c then (if cur = [] then split_words [] cs else rev cur # split_words [] cs)
      else split_words (c # cur) cs)"

definition str_split :: "unicode \<Rightarrow> unicode list" where
  "str_split t = split_words [] t"

text \<open>\<open>startswith t sub\<close> is \<open>t.startswith(sub)\<close>.\<close>

fun startswith :: "unicode \<Rightarrow> unicode \<Rightarrow> bool" where
  "startswith t [] = True"
| "startswith [] (s # ss) = False"
| "startswith (c # cs) (s # ss) = (c = s \<and> startswith cs ss)"

text \<open>\<open>str_contains sub t\<close> is \<open>sub in t\<close>.\<close>

fun str_contains :: "unicode \<Rightarrow> unicode \<Rightarrow> bool" where
  "str_contains sub [] = (sub = [])"
| "str_contains sub (c # cs) = (startswith (c # cs) sub \<or> str_contains sub cs)"

text \<open>
  \<open>count_from sub skip t\<close> scans \<open>t\<close> for non-overlapping occurrences of a non-empty
  \<open>sub\<close>, left to right; \<open>skip\<close> is the number of characters still covered by the last
  occurrence found. \<open>str_count t sub\<close> is \<open>t.count(sub)\<close>.
\<close>

fun count_from :: "unicode \<Rightarrow> nat \<Rightarrow> unicode \<Rightarrow> nat" where
  "count_from sub skip [] = 0"
| "count_from sub (Suc k) (c # cs) = count_from sub k cs"
| "count_from sub 0 (c # cs) =
     (if startswith (c # cs) sub then Suc (count_from sub (length sub - 1) cs)
      else count_from sub 0 cs)"

definition str_count :: "unicode \<Rightarrow> unicode \<Rightarrow> nat" where
  "str_count t sub = (if sub = [] then length t + 1 else count_from sub 0 t)"

section \<open>memai.py: TokenEstimator and MemoryManager\<close>

text \<open>
  An exchange of \<open>memai.py\<close> is a dict with the keys \<open>timestamp\<close>, \<open>user\<close> and
  \<open>assistant\<close>; the estimator tests the last two for presence, so they are optional.
\<close>

record exchange =
  timestamp :: unicode
  user :: "unicode option"
  assistant :: "unicode option"

record conversation =
  exchanges :: "exchange list"
  created :: unicode
  last_updated :: "unicode option"

text \<open>\<open>TokenEstimator.estimate_tokens\<close>, with \<open>chars_per_token = 3.0\<close>.\<close>

definition chars_per_token :: real where
  "chars_per_token = 3.0"

definition TokenEstimator_estimate_tokens :: "unicode \<Rightarrow> int" where
  "TokenEstimator_estimate_tokens t =
     (if t = [] then 0 else max 1 (py_int (real (length t) / chars_per_token)))"

fun TokenEstimator_estimate_conversation_tokens :: "exchange list \<Rightarrow> int" where
  "TokenEstimator_estimate_conversation_tokens [] = 0"
| "TokenEstimator_estimate_conversation_tokens (e # es) =
     (case user e of None \<Rightarrow> 0 | Some u \<Rightarrow> TokenEstimator_estimate_tokens u)
     + (case assistant e of None \<Rightarrow> 0 | Some a \<Rightarrow> TokenEstimator_estimate_tokens a)
     + TokenEstimator_estimate_conversation_tokens es"

text \<open>
  The loop of \<open>_trim_to_context_window\<close>: while more than one exchange is left, stop when
  the total is at most 80 percent of the window, else pop the oldest exchange.
\<close>

fun trim_while :: "exchange list \<Rightarrow> int \<Rightarrow> exchange list" where
  "trim_while (e1 # e2 # es) context_window =
     (if real_of_int (TokenEstimator_estimate_conversation_tokens (e1 # e2 # es))
           \<le> real_of_int context_window * 0.8
      then e1 # e2 # es
      else trim_while (e2 # es) context_window)"
| "trim_while es context_window = es"

definition trim_to_context_window :: "conversation \<Rightarrow> int \<Rightarrow> conversation" where
  "trim_to_context_window data context_window =
     (if exchanges data = [] then data
      else if length (exchanges data) \<le> 1 then data
      else data\<lparr>exchanges := trim_while (exchanges data) context_window\<rparr>)"

text \<open>
  The memory directory is a map from model names to stored conversations; a model without
  a file loads as a fresh conversation. \<open>now\<close> is the clock reading of the call.
\<close>

type_synonym memory_dir = "unicode \<rightharpoonup> conversation"

definition load_conversation :: "memory_dir \<Rightarrow> unicode \<Rightarrow> unicode \<Rightarrow> conversation" where
  "load_conversation dir model now =
     (case dir model of
        None \<Rightarrow> \<lparr>exchanges = [], created = now, last_updated = None\<rparr>
      | Some data \<Rightarrow> data)"

definition MemoryManager_add_exchange ::
  "memory_dir \<Rightarrow> unicode \<Rightarrow> unicode \<Rightarrow> unicode \<Rightarrow> int \<Rightarrow> unicode \<Rightarrow> memory_dir" where
  "MemoryManager_add_exchange dir model user_input ai_response context_window now =
     (let data = load_conversation dir model now;
          ex = \<lparr>timestamp = now, user = Some user_input, assistant = Some ai_response\<rparr>;
          data1 = data\<lparr>exchanges := exchanges data @ [ex], last_updated := Some now\<rparr>
      in dir(model \<mapsto> trim_to_context_window data1 context_window))"

definition stored_exchanges :: "memory_dir \<Rightarrow> unicode \<Rightarrow> unicode \<Rightarrow> exchange list" where
  "stored_exchanges dir model now = exchanges (load_conversation dir model now)"

section \<open>token_counter.py: SimpleTokenCounter\<close>

text \<open>
  The only counter of the system is built by \<open>SimpleTokenCounter()\<close>, so its two fields
  hold the defaults of \<open>__init__\<close>.
\<close>

definition base_ratio :: real where
  "base_ratio = 3.0"

definition safety_multiplier :: real where
  "safety_multiplier = 1.2"

text \<open>
  The two compiled patterns are character classes, so \<open>findall\<close> returns one match for
  each character of the class. \<open>emoji_pattern\<close> has the ranges 1F600-1F64F, 1F300-1F5FF,
  1F680-1F6FF, 1F1E0-1F1FF, 2700-27BF, 1F900-1F9FF and 1F018-1F270; \<open>symbol_pattern\<close>
  lists 31 ASCII punctuation characters, given here by their code points.
\<close>

definition emoji_pattern :: "nat \<Rightarrow> bool" where
  "emoji_pattern c =
     ((128512 \<le> c \<and> c \<le> 128591) \<or> (127744 \<le> c \<and> c \<le> 128511)
      \<or> (128640 \<le> c \<and> c \<le> 128767) \<or> (127456 \<le> c \<and> c \<le> 127487)
      \<or> (9984 \<le> c \<and> c \<le> 10175) \<or> (129280 \<le> c \<and> c \<le> 129535)
      \<or> (127000 \<le> c \<and> c \<le> 127600))"

definition symbol_pattern :: "nat \<Rightarrow> bool" where
  "symbol_pattern c =
     List.member [40, 41, 123, 125, 91, 93, 60, 62, 61, 33, 64, 35, 36, 37, 94, 38, 42, 43,
                  45, 95, 124, 92, 58, 59, 34, 39, 44, 46, 47, 96, 126] c"

definition estimate_tokens :: "unicode \<Rightarrow> int" where
  "estimate_tokens t =
     (if t = [] then 0
      else
        let base_estimate = max 1 (real (length t) / base_ratio);
            emoji_count = int (length (filter emoji_pattern t));
            symbol_count = int (length (filter symbol_pattern t));
            non_ascii_count = int (length (filter (\<lambda>c. c > 127) t));
            words = str_split t;
            long_word_chars =
              sum_list (map (\<lambda>w. int (length w) - 20) (filter (\<lambda>w. length w > 20) words));
            long_word_penalty = real_of_int (max 0 long_word_chars) / 10;
            emoji_adjustment = real_of_int (emoji_count * 2);
            symbol_adjustment = real_of_int symbol_count * 0.3;
            unicode_adjustment = real_of_int (non_ascii_count - emoji_count) * 0.5;
            adjusted_estimate =
              base_estimate + emoji_adjustment + symbol_adjustment + unicode_adjustment
                + long_word_penalty;
            final_estimate = py_int (adjusted_estimate * safety_multiplier)
        in max 1 final_estimate)"

section \<open>Stored exchanges and chat messages (MemoryAI bundle)\<close>

text \<open>
  The bundle passes dicts around: a stored exchange has the keys \<open>timestamp\<close>, \<open>user\<close>
  and \<open>assistant\<close>, the last two dicts with the keys \<open>content\<close> and \<open>tokens\<close>; a chat
  message has the keys \<open>role\<close> and \<open>content\<close>. The code tests keys for presence, so one
  record with optional fields stands for both shapes.
\<close>

record turn =
  content :: "unicode option"
  tokens :: "int option"

record entry =
  entry_timestamp :: "unicode option"
  entry_user :: "turn option"
  entry_assistant :: "turn option"
  entry_role :: "unicode option"
  entry_content :: "unicode option"

definition stored_exchange :: "unicode \<Rightarrow> unicode \<Rightarrow> int \<Rightarrow> unicode \<Rightarrow> int \<Rightarrow> entry" where
  "stored_exchange ts user_content user_tokens assistant_content assistant_tokens =
     \<lparr>entry_timestamp = Some ts,
      entry_user = Some \<lparr>content = Some user_content, tokens = Some user_tokens\<rparr>,
      entry_assistant = Some \<lparr>content = Some assistant_content, tokens = Some assistant_tokens\<rparr>,
      entry_role = None, entry_content = None\<rparr>"

definition chat_message :: "string \<Rightarrow> unicode \<Rightarrow> entry" where
  "chat_message r c =
     \<lparr>entry_timestamp = None, entry_user = None, entry_assistant = None,
      entry_role = Some (str r), entry_content = Some c\<rparr>"

text \<open>\<open>SimpleTokenCounter.estimate_conversation_tokens\<close>.\<close>

definition turn_content_tokens :: "turn \<Rightarrow> int" where
  "turn_content_tokens d = (case content d of None \<Rightarrow> 0 | Some c \<Rightarrow> estimate_tokens c)"

definition message_tokens :: "entry \<Rightarrow> int" where
  "message_tokens message =
     (case entry_content message of
        Some c \<Rightarrow> estimate_tokens c
      | None \<Rightarrow>
          (case (entry_user message, entry_assistant message) of
             (Some u, Some a) \<Rightarrow> turn_content_tokens u + turn_content_tokens a
           | _ \<Rightarrow> 0))"

definition estimate_conversation_tokens :: "entry list \<Rightarrow> int" where
  "estimate_conversation_tokens conv = sum_list (map message_tokens conv)"

section \<open>adaptive_budget_manager.py\<close>

text \<open>
  Two library functions are parameters of the model: \<open>str.lower\<close> (a Unicode table) and
  the number of matches \<open>re.findall\<close> finds for each of the six \<open>CODE_PATTERNS\<close>.
\<close>

datatype code_pattern = CodeBlock | InlineCode | FunctionDef | ClassDef | ImportStmt | MarkupTag

record runtime =
  str_lower :: "unicode \<Rightarrow> unicode"
  re_findall :: "code_pattern \<Rightarrow> unicode \<Rightarrow> nat"

datatype InteractionMode = TOOLS | CHAT

definition ANALYSIS_KEYWORDS :: "(string \<times> real) list" where
  "ANALYSIS_KEYWORDS =
     [(''analyze'', 2.0), (''explain'', 1.5), (''compare'', 2.0), (''evaluate'', 2.5),
      (''implement'', 3.0), (''create'', 2.0), (''design'', 2.5), (''develop'', 2.5),
      (''optimize'', 2.5), (''debug'', 2.0), (''refactor'', 2.0), (''review'', 1.5),
      (''summarize'', 1.5), (''research'', 2.0), (''investigate'', 2.0)]"

definition CODE_PATTERNS :: "code_pattern list" where
  "CODE_PATTERNS = [CodeBlock, InlineCode, FunctionDef, ClassDef, ImportStmt, MarkupTag]"

definition QUESTION_INDICATORS :: "(string \<times> real) list" where
  "QUESTION_INDICATORS =
     [(''how'', 1.0), (''what'', 0.5), (''why'', 1.5), (''when'', 0.5), (''where'', 0.5),
      (''which'', 0.8), (''who'', 0.3), (''can you'', 1.2), (''could you'', 1.2),
      (''explain how'', 2.0), (''show me'', 1.5), (''help me'', 1.8)]"

definition SHORT_QUERY :: int where "SHORT_QUERY = 50"
definition MEDIUM_QUERY :: int where "MEDIUM_QUERY = 150"
definition LONG_QUERY :: int where "LONG_QUERY = 300"

record 'a buckets =
  system_prompt :: 'a
  tool_definitions :: 'a
  conversation_memory :: 'a
  response_generation :: 'a
  safety_margin :: 'a
  reserved :: 'a

record ranges =
  response_min :: real
  response_max :: real
  memory_min :: real
  memory_max :: real

fun base_budgets :: "InteractionMode \<Rightarrow> real buckets" where
  "base_budgets TOOLS =
     \<lparr>system_prompt = 3.0, tool_definitions = 6.0, conversation_memory = 50.0,
      response_generation = 16.0, safety_margin = 5.0, reserved = 0.0\<rparr>"
| "base_budgets CHAT =
     \<lparr>system_prompt = 0.6, tool_definitions = 0.0, conversation_memory = 42.0,
      response_generation = 12.0, safety_margin = 5.0, reserved = 0.4\<rparr>"

fun adaptive_ranges :: "InteractionMode \<Rightarrow> ranges" where
  "adaptive_ranges TOOLS =
     \<lparr>response_min = 16.0, response_max = 26.0, memory_min = 45.0, memory_max = 55.0\<rparr>"
| "adaptive_ranges CHAT =
     \<lparr>response_min = 12.0, response_max = 22.0, memory_min = 38.0, memory_max = 50.0\<rparr>"

definition calculate_length_complexity :: "int \<Rightarrow> real" where
  "calculate_length_complexity len =
     (if len \<le> SHORT_QUERY then 0.1
      else if len \<le> MEDIUM_QUERY then 0.3
      else if len \<le> LONG_QUERY then 0.6
      else let excess = len - LONG_QUERY
           in min 0.9 (0.6 + (real_of_int excess / 1000) * 0.3))"

text \<open>
  The loop of \<open>_calculate_keyword_complexity\<close> over the keyword table, carrying
  \<open>keyword_weights\<close> and \<open>keyword_count\<close>.
\<close>

fun keyword_loop :: "(string \<times> real) list \<Rightarrow> unicode \<Rightarrow> real \<Rightarrow> nat \<Rightarrow> real \<times> nat" where
  "keyword_loop [] t keyword_weights keyword_count = (keyword_weights, keyword_count)"
| "keyword_loop ((keyword, weight) # rest) t keyword_weights keyword_count =
     (let n = str_count t (str keyword)
      in if n > 0
         then keyword_loop rest t (keyword_weights + weight * sqrt (real n)) (keyword_count + n)
         else keyword_loop rest t keyword_weights keyword_count)"

definition calculate_keyword_complexity :: "unicode \<Rightarrow> int \<Rightarrow> real" where
  "calculate_keyword_complexity t text_length =
     (case keyword_loop ANALYSIS_KEYWORDS t 0 0 of
        (keyword_weights, keyword_count) \<Rightarrow>
          if keyword_weights = 0 then 0
          else
            let density = real keyword_count / max 1 (real_of_int text_length / 10);
                keyword_weights1 =
                  (if density > 0.3 then keyword_weights * 0.5 else keyword_weights)
            in min 1.0 (keyword_weights1 / 10.0))"

fun code_loop :: "runtime \<Rightarrow> code_pattern list \<Rightarrow> unicode \<Rightarrow> real \<Rightarrow> real" where
  "code_loop rt [] t code_score = code_score"
| "code_loop rt (pattern # rest) t code_score =
     (let matches = re_findall rt pattern t
      in if matches > 0
         then (if pattern = CodeBlock
               then code_loop rt rest t (code_score + real matches * 0.5)
               else code_loop rt rest t (code_score + real matches * 0.1))
         else code_loop rt rest t code_score)"

definition calculate_code_complexity :: "runtime \<Rightarrow> unicode \<Rightarrow> real" where
  "calculate_code_complexity rt t = min 1.0 (code_loop rt CODE_PATTERNS t 0)"

fun question_loop :: "(string \<times> real) list \<Rightarrow> unicode \<Rightarrow> real \<Rightarrow> real" where
  "question_loop [] t question_score = question_score"
| "question_loop ((indicator, weight) # rest) t question_score =
     (if str_contains (str indicator) t then question_loop rest t (question_score + weight)
      else question_loop rest t question_score)"

definition question_words :: "string list" where
  "question_words = [''?'', ''how'', ''what'', ''why'', ''when'', ''where'', ''which'']"

definition calculate_question_complexity :: "unicode \<Rightarrow> real" where
  "calculate_question_complexity t =
     (let question_score = question_loop QUESTION_INDICATORS t 0;
          question_count = length (filter (\<lambda>w. str_contains (str w) t) question_words);
          question_score1 = (if question_count > 1 then question_score * 1.2 else question_score)
      in min 1.0 (question_score1 / 5.0))"

definition analyze_complexity :: "runtime \<Rightarrow> unicode \<Rightarrow> unicode \<Rightarrow> real" where
  "analyze_complexity rt user_input mode =
     (if user_input = [] then 0.1
      else
        let t = str_lower rt (str_strip user_input);
            text_length = int (length t)
        in if text_length = 0 then 0.1
           else
             let length_score = calculate_length_complexity text_length;
                 keyword_score = calculate_keyword_complexity t text_length;
                 code_score = calculate_code_complexity rt user_input;
                 question_score = calculate_question_complexity t;
                 complexity_score =
                   length_score * 0.25 + keyword_score * 0.30 + code_score * 0.25
                     + question_score * 0.20;
                 complexity_score1 =
                   (if mode = str ''tools'' then complexity_score * 1.2 else complexity_score)
             in max 0.0 (min 1.0 complexity_score1))"

text \<open>\<open>InteractionMode(mode.lower())\<close>, with the fallback of the \<open>except ValueError\<close>.\<close>

definition interaction_mode_of :: "runtime \<Rightarrow> unicode \<Rightarrow> InteractionMode" where
  "interaction_mode_of rt mode =
     (if str_lower rt mode = str ''tools'' then TOOLS
      else if str_lower rt mode = str ''chat'' then CHAT
      else CHAT)"

text \<open>
  \<open>calculate_adaptive_budgets\<close> in its three stages: the adaptive percentages (the source's
  lines 238 to 253), the conversion to tokens (258 to 261) and the minimum-memory step
  (263 to 281).
\<close>

definition adaptive_percentages :: "InteractionMode \<Rightarrow> real \<Rightarrow> py_error + real buckets" where
  "adaptive_percentages interaction_mode complexity =
     (let base = base_budgets interaction_mode;
          rg = adaptive_ranges interaction_mode;
          response_range = response_max rg - response_min rg;
          adaptive_response = response_min rg + complexity * response_range;
          memory_range = memory_max rg - memory_min rg
      in case py_truediv response_range (adaptive_response - response_min rg) of
           Inl e \<Rightarrow> Inl e
         | Inr q \<Rightarrow>
             (case py_truediv memory_range q of
                Inl e \<Rightarrow> Inl e
              | Inr r \<Rightarrow>
                  let memory_reduction = complexity * r;
                      adaptive_memory = memory_max rg - memory_reduction
                  in Inr (base\<lparr>response_generation := adaptive_response,
                                conversation_memory := adaptive_memory\<rparr>)))"

definition to_tokens :: "int \<Rightarrow> real \<Rightarrow> py_error + int" where
  "to_tokens context_window percentage =
     (case py_float context_window of
        Inl e \<Rightarrow> Inl e
      | Inr x \<Rightarrow> Inr (py_int (x * (percentage / 100.0))))"

definition absolute_budgets :: "int \<Rightarrow> real buckets \<Rightarrow> py_error + int buckets" where
  "absolute_budgets context_window p =
     (case to_tokens context_window (system_prompt p) of Inl e \<Rightarrow> Inl e | Inr sp \<Rightarrow>
     (case to_tokens context_window (tool_definitions p) of Inl e \<Rightarrow> Inl e | Inr td \<Rightarrow>
     (case to_tokens context_window (conversation_memory p) of Inl e \<Rightarrow> Inl e | Inr cm \<Rightarrow>
     (case to_tokens context_window (response_generation p) of Inl e \<Rightarrow> Inl e | Inr rg \<Rightarrow>
     (case to_tokens context_window (safety_margin p) of Inl e \<Rightarrow> Inl e | Inr sm \<Rightarrow>
     (case to_tokens context_window (reserved p) of Inl e \<Rightarrow> Inl e | Inr rs \<Rightarrow>
        Inr \<lparr>system_prompt = sp, tool_definitions = td, conversation_memory = cm,
             response_generation = rg, safety_margin = sm, reserved = rs\<rparr>))))))"

text \<open>
  The minimum-memory step multiplies the window by a float again; it runs only after the
  conversion above has converted the same window, so it cannot raise.
\<close>

definition ensure_minimum_memory :: "int \<Rightarrow> int \<Rightarrow> int buckets \<Rightarrow> int buckets" where
  "ensure_minimum_memory context_window minimum_memory_needed b =
     (if minimum_memory_needed > conversation_memory b
      then
        let shortage = minimum_memory_needed - conversation_memory b;
            available_reserved = reserved b
        in if available_reserved \<ge> shortage
           then b\<lparr>reserved := reserved b - shortage,
                  conversation_memory := minimum_memory_needed\<rparr>
           else
             let remaining_shortage = shortage - available_reserved
             in b\<lparr>reserved := max (py_int (real_of_int context_window * 0.02)) 0,
                   response_generation :=
                     max (py_int (real_of_int context_window * 0.10))
                         (response_generation b - remaining_shortage),
                   conversation_memory := minimum_memory_needed\<rparr>
      else b)"

text \<open>The allocation before the minimum-memory step, and the whole function.\<close>

definition initial_budgets :: "runtime \<Rightarrow> int \<Rightarrow> unicode \<Rightarrow> unicode \<Rightarrow> py_error + int buckets" where
  "initial_budgets rt context_window mode user_input =
     (case adaptive_percentages (interaction_mode_of rt mode)
             (analyze_complexity rt user_input mode) of
        Inl e \<Rightarrow> Inl e
      | Inr p \<Rightarrow> absolute_budgets context_window p)"

definition calculate_adaptive_budgets ::
  "runtime \<Rightarrow> int \<Rightarrow> unicode \<Rightarrow> unicode \<Rightarrow> int \<Rightarrow> py_error + int buckets" where
  "calculate_adaptive_budgets rt context_window mode user_input minimum_memory_needed =
     (case initial_budgets rt context_window mode user_input of
        Inl e \<Rightarrow> Inl e
      | Inr b \<Rightarrow> Inr (ensure_minimum_memory context_window minimum_memory_needed b))"

definition total_allocated :: "int buckets \<Rightarrow> int" where
  "total_allocated b =
     system_prompt b + tool_definitions b + conversation_memory b + response_generation b
       + safety_margin b + reserved b"

section \<open>unified_memory_manager.py\<close>

text \<open>\<open>_estimate_exchange_tokens\<close>: a stored token count wins over an estimate of the content.\<close>

definition turn_tokens :: "turn \<Rightarrow> int" where
  "turn_tokens d =
     (case tokens d of
        Some n \<Rightarrow> n
      | None \<Rightarrow> (case content d of Some c \<Rightarrow> estimate_tokens c | None \<Rightarrow> 0))"

definition estimate_exchange_tokens :: "entry \<Rightarrow> int" where
  "estimate_exchange_tokens ex =
     (case entry_user ex of None \<Rightarrow> 0 | Some u \<Rightarrow> turn_tokens u)
     + (case entry_assistant ex of None \<Rightarrow> 0 | Some a \<Rightarrow> turn_tokens a)"

text \<open>
  The loop of \<open>_trim_conversation_to_budget\<close> over the reversed conversation, carrying
  \<open>trimmed\<close> and \<open>current_tokens\<close>; the \<open>else\<close> branch is the \<open>break\<close>.
\<close>

fun trim_loop :: "entry list \<Rightarrow> int \<Rightarrow> entry list \<Rightarrow> int \<Rightarrow> entry list" where
  "trim_loop [] budget trimmed current_tokens = trimmed"
| "trim_loop (ex # rest) budget trimmed current_tokens =
     (let exchange_tokens = estimate_exchange_tokens ex
      in if current_tokens + exchange_tokens \<le> budget
         then trim_loop rest budget (ex # trimmed) (current_tokens + exchange_tokens)
         else trimmed)"

definition trim_conversation_to_budget :: "entry list \<Rightarrow> int \<Rightarrow> entry list" where
  "trim_conversation_to_budget conv budget =
     (if conv = [] \<or> budget \<le> 0 then [] else trim_loop (rev conv) budget [] 0)"

text \<open>
  The memory files of \<open>ModelSpecificMemory\<close> as a function from model names to the stored
  list (empty without a file); loading keeps the entries that have both turns.
\<close>

type_synonym memory_files = "unicode \<Rightarrow> entry list"

definition get_conversation_history :: "memory_files \<Rightarrow> unicode \<Rightarrow> entry list" where
  "get_conversation_history files model =
     filter (\<lambda>e. entry_user e \<noteq> None \<and> entry_assistant e \<noteq> None) (files model)"

definition get_conversation_within_budget ::
  "memory_files \<Rightarrow> unicode \<Rightarrow> int \<Rightarrow> int \<Rightarrow> entry list" where
  "get_conversation_within_budget files model budget minimum_exchanges =
     (let full_history = get_conversation_history files model
      in if full_history = [] then []
         else if int (length full_history) \<le> minimum_exchanges then full_history
         else
           let trimmed = trim_conversation_to_budget full_history budget
           in if int (length trimmed) < minimum_exchanges
                 \<and> int (length full_history) \<ge> minimum_exchanges
              then drop (nat (int (length full_history) - minimum_exchanges)) full_history
              else trimmed)"

definition turn_message :: "string \<Rightarrow> turn option \<Rightarrow> entry list" where
  "turn_message r d =
     (case d of
        None \<Rightarrow> []
      | Some u \<Rightarrow>
          (case content u of
             None \<Rightarrow> []
           | Some c \<Rightarrow> if c = [] then [] else [chat_message r c]))"

fun build_context_messages :: "entry list \<Rightarrow> entry list" where
  "build_context_messages [] = []"
| "build_context_messages (ex # rest) =
     turn_message ''user'' (entry_user ex) @ turn_message ''assistant'' (entry_assistant ex)
       @ build_context_messages rest"

record prepared =
  context_messages :: "entry list"
  budgets :: "int buckets"
  complexity_score :: real
  conversation_exchanges :: nat
  estimated_memory_tokens :: int
  memory_budget :: int

text \<open>
  \<open>prepare_context_for_model\<close>. The validator only reports, so it is left out; every
  exception inside the \<open>try\<close> is re-raised as \<open>MemoryError\<close>, one of them the division
  by \<open>context_window\<close> in the statistics.
\<close>

definition prepare_context_for_model ::
  "runtime \<Rightarrow> memory_files \<Rightarrow> unicode \<Rightarrow> unicode \<Rightarrow> unicode \<Rightarrow> int \<Rightarrow> int
     \<Rightarrow> py_error + prepared" where
  "prepare_context_for_model rt files model user_input interaction_mode context_window
       minimum_exchanges =
     (let score = analyze_complexity rt user_input interaction_mode
      in case calculate_adaptive_budgets rt context_window interaction_mode user_input 0 of
           Inl e \<Rightarrow> Inl MemoryError
         | Inr b \<Rightarrow>
             let conversation_history =
                   get_conversation_within_budget files model (conversation_memory b)
                     minimum_exchanges;
                 messages = build_context_messages conversation_history;
                 actual_memory_tokens = estimate_conversation_tokens messages;
                 budget = conversation_memory b;
                 messages1 =
                   (if actual_memory_tokens > budget
                    then trim_conversation_to_budget messages budget
                    else messages)
             in if context_window = 0 then Inl MemoryError
                else Inr \<lparr>context_messages = messages1, budgets = b, complexity_score = score,
                          conversation_exchanges = length conversation_history,
                          estimated_memory_tokens = actual_memory_tokens,
                          memory_budget = budget\<rparr>)"

section \<open>model_specific_memory.py: storing an exchange\<close>

text \<open>
  \<open>ModelSpecificMemory.add_exchange\<close>: a missing token count falls back to a quarter of the
  content's length, and the exchange is appended to the loaded conversation.
\<close>

definition fallback_tokens :: "unicode \<Rightarrow> int option \<Rightarrow> int" where
  "fallback_tokens c given =
     (case given of None \<Rightarrow> max 1 (int (length c) div 4) | Some n \<Rightarrow> n)"

definition ModelSpecificMemory_add_exchange ::
  "memory_files \<Rightarrow> unicode \<Rightarrow> unicode \<Rightarrow> unicode \<Rightarrow> int option \<Rightarrow> int option \<Rightarrow> unicode
     \<Rightarrow> memory_files" where
  "ModelSpecificMemory_add_exchange files model user_content assistant_content user_tokens
       assistant_tokens now =
     files(model :=
       get_conversation_history files model
         @ [stored_exchange now user_content (fallback_tokens user_content user_tokens)
              assistant_content (fallback_tokens assistant_content assistant_tokens)])"

section \<open>Derived quantities and the inputs of the examples\<close>

text \<open>The summed estimate of a list of exchanges, and the memory percentage of a query.\<close>

definition exchange_tokens_total :: "entry list \<Rightarrow> int" where
  "exchange_tokens_total xs = sum_list (map estimate_exchange_tokens xs)"

definition memory_percentage :: "runtime \<Rightarrow> unicode \<Rightarrow> unicode \<Rightarrow> py_error + real" where
  "memory_percentage rt mode user_input =
     (case adaptive_percentages (interaction_mode_of rt mode)
             (analyze_complexity rt user_input mode) of
        Inl e \<Rightarrow> Inl e
      | Inr p \<Rightarrow> Inr (conversation_memory p))"

text \<open>The bucket sizes that the conversion to tokens yields when the window converts.\<close>

definition token_share :: "int \<Rightarrow> real \<Rightarrow> int" where
  "token_share w p = py_int (real_of_int w * (p / 100.0))"

definition token_shares :: "int \<Rightarrow> real buckets \<Rightarrow> int buckets" where
  "token_shares w p =
     \<lparr>system_prompt = token_share w (system_prompt p),
      tool_definitions = token_share w (tool_definitions p),
      conversation_memory = token_share w (conversation_memory p),
      response_generation = token_share w (response_generation p),
      safety_margin = token_share w (safety_margin p),
      reserved = token_share w (reserved p)\<rparr>"

text \<open>\<open>str_repeat s n\<close> is Python's \<open>s * n\<close>.\<close>

definition str_repeat :: "unicode \<Rightarrow> nat \<Rightarrow> unicode" where
  "str_repeat s n = concat (replicate n s)"

text \<open>
  The library functions on queries of lower-case ASCII letters and spaces that hold no
  code: lower-casing changes only the letters A to Z and no code pattern matches.
\<close>

definition ascii_lower :: "nat \<Rightarrow> nat" where
  "ascii_lower c = (if 65 \<le> c \<and> c \<le> 90 then c + 32 else c)"

definition ascii_runtime :: runtime where
  "ascii_runtime = \<lparr>str_lower = map ascii_lower, re_findall = (\<lambda>p t. 0)\<rparr>"

text \<open>Five stored exchanges of 500 tokens each, and one exchange of 20 tokens.\<close>

definition five_exchanges :: "entry list" where
  "five_exchanges = map (\<lambda>i. stored_exchange [] [i] 250 [i] 250) [1, 2, 3, 4, 5]"

definition greeting_exchange :: entry where
  "greeting_exchange = stored_exchange [] (str ''hello'') 10 (str ''hi there'') 10"

text \<open>
  A memory holding one exchange of two 600-character turns, stored without token counts
  (as the migration of a legacy memory does).
\<close>

definition long_turn_files :: memory_files where
  "long_turn_files =
     ModelSpecificMemory_add_exchange (\<lambda>m. []) (str ''m'') (str_repeat (str ''a'') 600)
       (str_repeat (str ''b'') 600) None None (str ''t'')"

section \<open>Appending to a stored conversation (memai.py)\<close>

lemma trim_while_suffix: "suffix (trim_while es w) es"
proof (induction es w rule: trim_while.induct)
  case (1 e1 e2 es w)
  then show ?case
    by (auto intro: suffix_ConsI)
qed simp_all

lemma trim_while_nonempty: "es \<noteq> [] \<Longrightarrow> trim_while es w \<noteq> []"
  by (induction es w rule: trim_while.induct) auto

lemma trim_while_fits:
  "length (trim_while es w) \<le> 1
   \<or> real_of_int (TokenEstimator_estimate_conversation_tokens (trim_while es w))
        \<le> real_of_int w * 0.8"
  by (induction es w rule: trim_while.induct) auto

lemma suffix_nonempty_last: "suffix ys xs \<Longrightarrow> ys \<noteq> [] \<Longrightarrow> last ys = last xs"
  by (auto simp: suffix_def)

lemma trim_to_context_window_exchanges:
  "exchanges (trim_to_context_window d w) = trim_while (exchanges d) w"
proof (cases "exchanges d")
  case Nil
  then show ?thesis by (simp add: trim_to_context_window_def)
next
  case (Cons e es)
  then show ?thesis by (cases es) (simp_all add: trim_to_context_window_def)
qed

lemma stored_after_add:
  "stored_exchanges (MemoryManager_add_exchange dir model u a w now) model now2 =
     trim_while (stored_exchanges dir model now
        @ [\<lparr>timestamp = now, user = Some u, assistant = Some a\<rparr>]) w"
  by (simp add: stored_exchanges_def MemoryManager_add_exchange_def load_conversation_def
      Let_def trim_to_context_window_exchanges)

text \<open>
  C8. After \<open>add_exchange\<close> the stored conversation of the model either has exactly one
  exchange or an estimated total of at most 0.8 times the context window; it is not empty;
  it is the old conversation with the new exchange appended, less a prefix of old
  exchanges; and its last exchange is the one just appended.
\<close>

theorem add_exchange_keeps_window:
  fixes dir :: memory_dir
  shows "(length (stored_exchanges (MemoryManager_add_exchange dir model u a w now) model now2) = 1
      \<or> real_of_int (TokenEstimator_estimate_conversation_tokens
            (stored_exchanges (MemoryManager_add_exchange dir model u a w now) model now2))
          \<le> real_of_int w * 0.8)
    \<and> stored_exchanges (MemoryManager_add_exchange dir model u a w now) model now2 \<noteq> []
    \<and> (\<exists>k. k \<le> length (stored_exchanges dir model now)
          \<and> stored_exchanges (MemoryManager_add_exchange dir model u a w now) model now2
            = drop k (stored_exchanges dir model now
                @ [\<lparr>timestamp = now, user = Some u, assistant = Some a\<rparr>]))
    \<and> last (stored_exchanges (MemoryManager_add_exchange dir model u a w now) model now2)
        = \<lparr>timestamp = now, user = Some u, assistant = Some a\<rparr>"
proof -
  let ?ex = "\<lparr>timestamp = now, user = Some u, assistant = Some a\<rparr>"
  let ?old = "stored_exchanges dir model now"
  let ?new = "trim_while (?old @ [?ex]) w"
  have ne: "?new \<noteq> []"
    by (rule trim_while_nonempty) simp
  have suf: "suffix ?new (?old @ [?ex])"
    by (rule trim_while_suffix)
  have fits: "length ?new = 1 \<or>
      real_of_int (TokenEstimator_estimate_conversation_tokens ?new) \<le> real_of_int w * 0.8"
    using trim_while_fits [of "?old @ [?ex]" w] ne
    by (cases ?new) auto
  have lst: "last ?new = ?ex"
    using suffix_nonempty_last [OF suf ne] by simp
  obtain ps where ps: "?old @ [?ex] = ps @ ?new"
    using suf by (auto simp: suffix_def)
  have "length ps + length ?new = length ?old + 1"
    using arg_cong [OF ps, of length] by simp
  moreover have "1 \<le> length ?new"
    using ne by (cases ?new) auto
  ultimately have k: "length ps \<le> length ?old" by linarith
  have dr: "?new = drop (length ps) (?old @ [?ex])"
    by (subst ps) simp
  show ?thesis
    unfolding stored_after_add
    using fits ne lst k dr by blast
qed

section \<open>Trimming a conversation to a budget (unified_memory_manager.py)\<close>

lemma exchange_tokens_total_simps [simp]:
  "exchange_tokens_total [] = 0"
  "exchange_tokens_total (x # xs) = estimate_exchange_tokens x + exchange_tokens_total xs"
  by (simp_all add: exchange_tokens_total_def)

lemma exchange_tokens_total_rev: "exchange_tokens_total (rev xs) = exchange_tokens_total xs"
  by (simp add: exchange_tokens_total_def rev_map [symmetric])

text \<open>
  The loop takes the longest prefix of the reversed conversation whose running totals all
  stay within the budget.
\<close>

lemma trim_loop_greedy:
  "cur \<le> b \<Longrightarrow>
   \<exists>k. k \<le> length xs \<and> trim_loop xs b acc cur = rev (take k xs) @ acc
     \<and> (\<forall>j. j \<le> k \<longrightarrow> cur + exchange_tokens_total (take j xs) \<le> b)
     \<and> (k < length xs \<longrightarrow> cur + exchange_tokens_total (take (Suc k) xs) > b)"
proof (induction xs arbitrary: acc cur)
  case Nil
  then show ?case by simp
next
  case (Cons x xs)
  show ?case
  proof (cases "cur + estimate_exchange_tokens x \<le> b")
    case True
    from Cons.IH [OF True, of "x # acc"] obtain k where
      k: "k \<le> length xs"
        "trim_loop xs b (x # acc) (cur + estimate_exchange_tokens x) = rev (take k xs) @ x # acc"
        "\<forall>j. j \<le> k \<longrightarrow> cur + estimate_exchange_tokens x + exchange_tokens_total (take j xs) \<le> b"
        "k < length xs \<longrightarrow> cur + estimate_exchange_tokens x + exchange_tokens_total (take (Suc k) xs) > b"
      by blast
    have all: "\<forall>j. j \<le> Suc k \<longrightarrow> cur + exchange_tokens_total (take j (x # xs)) \<le> b"
    proof (intro allI impI)
      fix j assume "j \<le> Suc k"
      then show "cur + exchange_tokens_total (take j (x # xs)) \<le> b"
        using k(3) Cons.prems by (cases j) (auto simp: add.assoc)
    qed
    show ?thesis
      by (rule exI [of _ "Suc k"]) (use True k all in \<open>simp add: Let_def add.assoc\<close>)
  next
    case False
    show ?thesis
      by (rule exI [of _ 0]) (use False Cons.prems in \<open>simp add: Let_def\<close>)
  qed
qed

lemma take_rev_total:
  "exchange_tokens_total (take j (rev xs)) = exchange_tokens_total (drop (length xs - j) xs)"
  by (simp add: take_rev exchange_tokens_total_rev)

text \<open>
  C4. For a non-empty conversation and a positive budget the result is the suffix of the
  last \<open>k\<close> exchanges, in their order, where \<open>k\<close> is fixed by the backward walk: the totals
  of the last \<open>j\<close> exchanges stay within the budget for every \<open>j\<close> up to \<open>k\<close>, and the
  exchange before the suffix (if there is one) would push the total above the budget. The
  total of the result is within the budget.
\<close>

theorem trim_returns_greedy_suffix:
  assumes "conv \<noteq> []" and "0 < b"
  shows "\<exists>k. k \<le> length conv
      \<and> trim_conversation_to_budget conv b = drop (length conv - k) conv
      \<and> (\<forall>j. j \<le> k \<longrightarrow> exchange_tokens_total (drop (length conv - j) conv) \<le> b)
      \<and> (k < length conv \<longrightarrow> exchange_tokens_total (drop (length conv - Suc k) conv) > b)
      \<and> exchange_tokens_total (trim_conversation_to_budget conv b) \<le> b"
proof -
  have "(0::int) \<le> b" using assms(2) by simp
  from trim_loop_greedy [OF this, of "rev conv" "[]"] obtain k where
    k: "k \<le> length conv"
      "trim_loop (rev conv) b [] 0 = rev (take k (rev conv))"
      "\<forall>j. j \<le> k \<longrightarrow> exchange_tokens_total (take j (rev conv)) \<le> b"
      "k < length conv \<longrightarrow> exchange_tokens_total (take (Suc k) (rev conv)) > b"
    by auto
  have eq: "trim_conversation_to_budget conv b = drop (length conv - k) conv"
    using assms k(2) by (simp add: trim_conversation_to_budget_def take_rev)
  have "exchange_tokens_total (drop (length conv - k) conv) \<le> b"
    using k(3) by (simp add: take_rev_total)
  then show ?thesis
    using k(1,3,4) eq by (auto simp: take_rev_total)
qed

text \<open>
  At five exchanges of 500 tokens and a budget of 1200 the result is the last two
  exchanges.
\<close>

theorem trim_returns_greedy_suffix_witness:
  "five_exchanges \<noteq> [] \<and> (0::int) < 1200
   \<and> trim_conversation_to_budget five_exchanges 1200 = drop 3 five_exchanges
   \<and> exchange_tokens_total (trim_conversation_to_budget five_exchanges 1200) \<le> 1200"
proof -
  have a: "five_exchanges \<noteq> []" by (simp add: five_exchanges_def)
  have b: "(0::int) < 1200" by simp
  have c: "trim_conversation_to_budget five_exchanges 1200 = drop 3 five_exchanges"
    by (simp add: five_exchanges_def trim_conversation_to_budget_def stored_exchange_def
        estimate_exchange_tokens_def turn_tokens_def)
  from trim_returns_greedy_suffix [OF a b] show ?thesis using a c by auto
qed

lemma trim_loop_keeps_acc: "\<exists>ys. trim_loop xs b acc cur = ys @ acc"
proof (induction xs arbitrary: acc cur)
  case Nil
  then show ?case by simp
next
  case (Cons x xs)
  show ?case
  proof (cases "cur + estimate_exchange_tokens x \<le> b")
    case True
    from Cons.IH [of "x # acc" "cur + estimate_exchange_tokens x"] obtain ys where
      "trim_loop xs b (x # acc) (cur + estimate_exchange_tokens x) = ys @ x # acc" by blast
    then have "trim_loop (x # xs) b acc cur = (ys @ [x]) @ acc"
      using True by (simp add: Let_def)
    then show ?thesis by blast
  next
    case False
    then show ?thesis by (simp add: Let_def)
  qed
qed

text \<open>
  C5, as the code has it. For a non-empty conversation and a positive budget: when the
  newest exchange alone fits the budget, the result is not empty and ends with it; when
  the newest exchange alone exceeds the budget, the result is empty.
\<close>

theorem trim_keeps_newest_when_it_fits:
  assumes "conv \<noteq> []" and "0 < b"
  shows "if estimate_exchange_tokens (last conv) \<le> b
         then trim_conversation_to_budget conv b \<noteq> []
              \<and> last (trim_conversation_to_budget conv b) = last conv
         else trim_conversation_to_budget conv b = []"
proof -
  obtain x xs where r: "rev conv = x # xs"
    using assms(1) by (cases "rev conv") auto
  then have lx: "last conv = x"
    by (metis last_rev list.sel(1) rev_rev_ident assms(1) hd_rev)
  show ?thesis
  proof (cases "estimate_exchange_tokens x \<le> b")
    case True
    obtain ys where "trim_loop xs b [x] (estimate_exchange_tokens x) = ys @ [x]"
      using trim_loop_keeps_acc [of xs b "[x]"] by blast
    then show ?thesis
      using assms r lx True by (simp add: trim_conversation_to_budget_def Let_def)
  next
    case False
    then show ?thesis
      using assms r lx by (simp add: trim_conversation_to_budget_def Let_def)
  qed
qed

lemma greeting_exchange_tokens: "estimate_exchange_tokens greeting_exchange = 20"
  by (simp add: greeting_exchange_def stored_exchange_def estimate_exchange_tokens_def
      turn_tokens_def)

theorem trim_keeps_newest_when_it_fits_witness:
  "[greeting_exchange] \<noteq> [] \<and> (0::int) < 25
   \<and> trim_conversation_to_budget [greeting_exchange] 25 \<noteq> []
   \<and> last (trim_conversation_to_budget [greeting_exchange] 25) = greeting_exchange"
proof -
  have a: "[greeting_exchange] \<noteq> []" by simp
  have b: "(0::int) < 25" by simp
  from trim_keeps_newest_when_it_fits [OF a b] show ?thesis
    by (simp add: greeting_exchange_tokens)
qed

text \<open>
  C5 as stated fails: one exchange of 20 tokens and a budget of 5 give the empty list, so
  the newest exchange is dropped.
\<close>

theorem trim_drops_newest_counterexample:
  "[greeting_exchange] \<noteq> [] \<and> (0::int) < 5
   \<and> trim_conversation_to_budget [greeting_exchange] 5 = []"
  by (simp add: trim_conversation_to_budget_def greeting_exchange_tokens)

section \<open>The token estimate of a plain word (token_counter.py)\<close>

lemma str_repeat_single: "str_repeat [a] n = replicate n a"
  by (induction n) (simp_all add: str_repeat_def)

lemma split_words_replicate:
  "\<not> isspace a \<Longrightarrow>
   split_words cur (replicate n a) = (if cur = [] \<and> n = 0 then [] else [rev cur @ replicate n a])"
proof (induction n arbitrary: cur)
  case 0
  then show ?case by simp
next
  case (Suc n)
  then show ?case by (simp add: replicate_app_Cons_same)
qed

text \<open>
  A run of \<open>n\<close> copies of a letter is one word: no emoji, symbol or non-ASCII character,
  and a long-word penalty once it is longer than 20 characters.
\<close>

lemma estimate_tokens_letters:
  assumes "0 < n" and "\<not> isspace a" and "\<not> emoji_pattern a" and "\<not> symbol_pattern a"
    and "a \<le> 127"
  shows "estimate_tokens (replicate n a) =
     max 1 (py_int ((max 1 (real n / 3)
        + real_of_int (max 0 (if 20 < n then int n - 20 else 0)) / 10) * 1.2))"
proof -
  have w: "str_split (replicate n a) = [replicate n a]"
    using assms(1) by (simp add: str_split_def split_words_replicate [OF assms(2)])
  have f1: "filter emoji_pattern (replicate n a) = []"
    using assms(3) by simp
  have f2: "filter symbol_pattern (replicate n a) = []"
    using assms(4) by simp
  have f3: "filter (\<lambda>c. c > 127) (replicate n a) = []"
    using assms(5) by simp
  show ?thesis
    unfolding estimate_tokens_def Let_def w f1 f2 f3
    using assms(1) by (simp add: base_ratio_def safety_multiplier_def)
qed

lemma letter_a: "\<not> isspace 97" "\<not> emoji_pattern 97" "\<not> symbol_pattern 97" "(97::nat) \<le> 127"
  by (simp_all add: isspace_def emoji_pattern_def symbol_pattern_def)

lemma letter_b: "\<not> isspace 98" "\<not> emoji_pattern 98" "\<not> symbol_pattern 98" "(98::nat) \<le> 127"
  by (simp_all add: isspace_def emoji_pattern_def symbol_pattern_def)

lemma estimate_tokens_a300: "estimate_tokens (str_repeat (str ''a'') 300) = 153"
proof -
  have "estimate_tokens (replicate 300 97) = 153"
    by (subst estimate_tokens_letters [OF _ letter_a]) (simp_all add: py_int_def)
  then show ?thesis by (simp add: str_repeat_single str_def)
qed

lemma estimate_tokens_empty: "estimate_tokens (str '''') = 0"
  by (simp add: estimate_tokens_def str_def)

text \<open>
  C6, as the code has it. The empty string is estimated at 0 tokens, and 300 letters
  \<open>a\<close> at 153 tokens: the base of 100 and a long-word penalty of 28 (the string is one
  word of 300 characters), times 1.2 and truncated.
\<close>

theorem estimate_tokens_examples:
  "estimate_tokens (str '''') = 0 \<and> estimate_tokens (str_repeat (str ''a'') 300) = 153"
  by (simp add: estimate_tokens_empty estimate_tokens_a300)

text \<open>C6 as stated fails: the estimate of 300 letters \<open>a\<close> is not 120.\<close>

theorem estimate_tokens_a300_counterexample:
  "estimate_tokens (str_repeat (str ''a'') 300) \<noteq> 120"
  by (simp add: estimate_tokens_a300)

section \<open>The keyword score of a repeated keyword (adaptive_budget_manager.py)\<close>

lemma startswith_append: "startswith (sub @ rest) sub"
  by (induction sub) simp_all

lemma count_from_skip: "count_from sub (length xs) (xs @ rest) = count_from sub 0 rest"
  by (induction xs) simp_all

lemma count_from_repeat: "sub \<noteq> [] \<Longrightarrow> count_from sub 0 (str_repeat sub n) = n"
proof (induction n)
  case 0
  then show ?case by (simp add: str_repeat_def)
next
  case (Suc n)
  then obtain c cs where s: "sub = c # cs" by (cases sub) auto
  have "count_from sub 0 (c # cs @ str_repeat sub n)
      = Suc (count_from sub (length cs) (cs @ str_repeat sub n))"
    using startswith_append [of sub "str_repeat sub n"] s by simp
  also have "\<dots> = Suc (count_from sub 0 (str_repeat sub n))"
    by (simp add: count_from_skip)
  finally show ?case
    using Suc s by (simp add: str_repeat_def)
qed

lemma startswith_set: "startswith t sub \<Longrightarrow> set sub \<subseteq> set t"
  by (induction t sub rule: startswith.induct) auto

lemma count_from_absent: "\<not> set sub \<subseteq> set t \<Longrightarrow> count_from sub k t = 0"
proof (induction t arbitrary: k)
  case Nil
  then show ?case by simp
next
  case (Cons c cs)
  have ns: "\<not> startswith (c # cs) sub"
    using startswith_set Cons.prems by blast
  have rest: "\<not> set sub \<subseteq> set cs"
    using Cons.prems by auto
  show ?case
  proof (cases k)
    case 0
    then show ?thesis using ns Cons.IH [OF rest] by simp
  next
    case (Suc j)
    then show ?thesis using Cons.IH [OF rest] by simp
  qed
qed

lemma set_str_repeat: "0 < n \<Longrightarrow> set (str_repeat s n) = set s"
  by (cases n) (auto simp: str_repeat_def)

lemma length_str_repeat: "length (str_repeat s n) = n * length s"
  by (induction n) (simp_all add: str_repeat_def)

lemma str_count_repeat_self: "sub \<noteq> [] \<Longrightarrow> str_count (str_repeat sub n) sub = n"
  by (simp add: str_count_def count_from_repeat)

lemma str_count_absent: "\<not> set sub \<subseteq> set t \<Longrightarrow> str_count t sub = 0"
  using count_from_absent [of sub t 0] by (auto simp: str_count_def)

lemma sqrt_100: "sqrt 100 = 10"
  using real_sqrt_abs [of 10] by simp

lemma sqrt_2_bounds: "7 / 5 < sqrt 2" "sqrt 2 < 3 / 2"
proof -
  have "sqrt ((7 / 5)\<^sup>2) < sqrt 2"
    by (subst real_sqrt_less_iff) (simp add: power2_eq_square)
  then show "7 / 5 < sqrt 2" by simp
  have "sqrt 2 < sqrt ((3 / 2)\<^sup>2)"
    by (subst real_sqrt_less_iff) (simp add: power2_eq_square)
  then show "sqrt 2 < 3 / 2" by simp
qed

text \<open>
  In a text of \<open>n\<close> copies of \<open>optimize\<close> the keyword \<open>optimize\<close> occurs \<open>n\<close> times and
  every other keyword has a letter that the text lacks.
\<close>

lemma keyword_loop_optimize:
  assumes "0 < n"
  shows "keyword_loop ANALYSIS_KEYWORDS (str_repeat (str ''optimize'') n) 0 0
           = (2.5 * sqrt (real n), n)"
proof -
  have s: "set (str_repeat (str ''optimize'') n) = set (str ''optimize'')"
    by (rule set_str_repeat [OF assms])
  have self: "str_count (str_repeat (str ''optimize'') n) (str ''optimize'') = n"
    by (rule str_count_repeat_self) (simp add: str_def)
  have other: "\<And>k. \<not> set (str k) \<subseteq> set (str ''optimize'')
      \<Longrightarrow> str_count (str_repeat (str ''optimize'') n) (str k) = 0"
    using str_count_absent s by simp
  have o: "str_count (str_repeat (str ''optimize'') n) (str ''analyze'') = 0"
      "str_count (str_repeat (str ''optimize'') n) (str ''explain'') = 0"
      "str_count (str_repeat (str ''optimize'') n) (str ''compare'') = 0"
      "str_count (str_repeat (str ''optimize'') n) (str ''evaluate'') = 0"
      "str_count (str_repeat (str ''optimize'') n) (str ''implement'') = 0"
      "str_count (str_repeat (str ''optimize'') n) (str ''create'') = 0"
      "str_count (str_repeat (str ''optimize'') n) (str ''design'') = 0"
      "str_count (str_repeat (str ''optimize'') n) (str ''develop'') = 0"
      "str_count (str_repeat (str ''optimize'') n) (str ''debug'') = 0"
      "str_count (str_repeat (str ''optimize'') n) (str ''refactor'') = 0"
      "str_count (str_repeat (str ''optimize'') n) (str ''review'') = 0"
      "str_count (str_repeat (str ''optimize'') n) (str ''summarize'') = 0"
      "str_count (str_repeat (str ''optimize'') n) (str ''research'') = 0"
      "str_count (str_repeat (str ''optimize'') n) (str ''investigate'') = 0"
    by (rule other, simp add: str_def)+
  show ?thesis
    using assms by (simp add: ANALYSIS_KEYWORDS_def Let_def self o)
qed

lemma length_optimize: "length (str ''optimize'') = 8"
  by (simp add: str_def)

lemma keyword_score_100:
  "calculate_keyword_complexity (str_repeat (str ''optimize'') 100)
      (int (length (str_repeat (str ''optimize'') 100))) = 1"
  unfolding calculate_keyword_complexity_def
  by (simp add: keyword_loop_optimize length_str_repeat length_optimize sqrt_100 Let_def)

lemma keyword_score_2:
  "calculate_keyword_complexity (str_repeat (str ''optimize'') 2)
      (int (length (str_repeat (str ''optimize'') 2))) = sqrt 2 / 8"
  unfolding calculate_keyword_complexity_def
  using sqrt_2_bounds
  by (simp add: keyword_loop_optimize length_str_repeat length_optimize Let_def)

text \<open>
  C3, as the code has it. The keyword score of \<open>optimize\<close> repeated 100 times is below 6
  times the score of \<open>optimize\<close> repeated twice (the scores are 1, the cap, and the
  square root of 2 over 8).
\<close>

theorem keyword_score_sublinear:
  "calculate_keyword_complexity (str_repeat (str ''optimize'') 100)
      (int (length (str_repeat (str ''optimize'') 100)))
    < 6 * calculate_keyword_complexity (str_repeat (str ''optimize'') 2)
      (int (length (str_repeat (str ''optimize'') 2)))"
  unfolding keyword_score_100 keyword_score_2 using sqrt_2_bounds by linarith

text \<open>C3 as stated fails: the score of 100 repetitions is not below 3 times that of 2.\<close>

theorem keyword_score_counterexample:
  "\<not> calculate_keyword_complexity (str_repeat (str ''optimize'') 100)
      (int (length (str_repeat (str ''optimize'') 100)))
    < 3 * calculate_keyword_complexity (str_repeat (str ''optimize'') 2)
      (int (length (str_repeat (str ''optimize'') 2)))"
  unfolding keyword_score_100 keyword_score_2 using sqrt_2_bounds by linarith

section \<open>The complexity score and the budgets (adaptive_budget_manager.py)\<close>

lemma keyword_loop_nonneg:
  "list_all (\<lambda>(k, w). 0 \<le> w) kws \<Longrightarrow> 0 \<le> kw \<Longrightarrow> 0 \<le> fst (keyword_loop kws t kw kc)"
proof (induction kws t kw kc rule: keyword_loop.induct)
  case (1 t kw kc)
  then show ?case by simp
next
  case (2 keyword weight rest t kw kc)
  then show ?case by (simp add: Let_def)
qed

lemma ANALYSIS_KEYWORDS_nonneg: "list_all (\<lambda>(k, w). 0 \<le> w) ANALYSIS_KEYWORDS"
  by (simp add: ANALYSIS_KEYWORDS_def)

lemma calculate_keyword_complexity_nonneg: "0 \<le> calculate_keyword_complexity t n"
proof -
  obtain kw kc where k: "keyword_loop ANALYSIS_KEYWORDS t 0 0 = (kw, kc)"
    by (cases "keyword_loop ANALYSIS_KEYWORDS t 0 0") auto
  have "0 \<le> kw"
    using keyword_loop_nonneg [OF ANALYSIS_KEYWORDS_nonneg, of 0 t 0] k by simp
  then show ?thesis
    by (simp add: calculate_keyword_complexity_def k Let_def)
qed

lemma code_loop_step:
  "\<exists>s'. s \<le> s' \<and> code_loop rt (p # ps) t s = code_loop rt ps t s'"
proof (cases "re_findall rt p t > 0")
  case False
  then have "code_loop rt (p # ps) t s = code_loop rt ps t s" by simp
  then show ?thesis by (intro exI [of _ s]) simp
next
  case True
  show ?thesis
  proof (cases "p = CodeBlock")
    case True
    have "code_loop rt (p # ps) t s = code_loop rt ps t (s + real (re_findall rt p t) * 0.5)"
      using \<open>re_findall rt p t > 0\<close> True by (simp add: Let_def)
    then show ?thesis by (intro exI [of _ "s + real (re_findall rt p t) * 0.5"]) simp
  next
    case False
    have "code_loop rt (p # ps) t s = code_loop rt ps t (s + real (re_findall rt p t) * 0.1)"
      using \<open>re_findall rt p t > 0\<close> False by (simp add: Let_def)
    then show ?thesis by (intro exI [of _ "s + real (re_findall rt p t) * 0.1"]) simp
  qed
qed

lemma code_loop_mono: "s \<le> code_loop rt ps t s"
proof (induction ps arbitrary: s)
  case Nil
  then show ?case by simp
next
  case (Cons p ps)
  obtain s' where s': "s \<le> s'" "code_loop rt (p # ps) t s = code_loop rt ps t s'"
    using code_loop_step by blast
  have "s' \<le> code_loop rt ps t s'" by (rule Cons.IH)
  then show ?case using s' by simp
qed

lemma calculate_code_complexity_nonneg: "0 \<le> calculate_code_complexity rt t"
  using code_loop_mono [of 0 rt CODE_PATTERNS t]
  by (simp add: calculate_code_complexity_def)

lemma question_loop_nonneg:
  "list_all (\<lambda>(k, w). 0 \<le> w) qs \<Longrightarrow> 0 \<le> s \<Longrightarrow> 0 \<le> question_loop qs t s"
  by (induction qs t s rule: question_loop.induct) simp_all

lemma calculate_question_complexity_nonneg: "0 \<le> calculate_question_complexity t"
proof -
  have "0 \<le> question_loop QUESTION_INDICATORS t 0"
    by (rule question_loop_nonneg) (simp_all add: QUESTION_INDICATORS_def)
  then show ?thesis
    by (simp add: calculate_question_complexity_def Let_def)
qed

lemma calculate_length_complexity_floor: "0.1 \<le> calculate_length_complexity n"
proof (cases "n \<le> 300")
  case True
  then show ?thesis
    by (simp add: calculate_length_complexity_def SHORT_QUERY_def MEDIUM_QUERY_def
        LONG_QUERY_def)
next
  case False
  then have "0 \<le> (real_of_int (n - 300) / 1000) * 0.3" by simp
  then have "(0.1::real) \<le> min 0.9 (0.6 + (real_of_int (n - 300) / 1000) * 0.3)"
    by (simp only: min_def) (simp split: if_splits)
  then show ?thesis
    using False
    by (simp only: calculate_length_complexity_def SHORT_QUERY_def MEDIUM_QUERY_def
        LONG_QUERY_def Let_def) simp
qed

lemma clamp_floor:
  fixes s :: real
  assumes "0.025 \<le> s"
  shows "0.025 \<le> max 0.0 (min 1.0 s)"
  using assms by (simp add: max_def min_def)

lemma analyze_complexity_bounds:
  "0.025 \<le> analyze_complexity rt q mode \<and> analyze_complexity rt q mode \<le> 1"
proof -
  define t where "t = str_lower rt (str_strip q)"
  define n where "n = int (length t)"
  define s where "s = calculate_length_complexity n * 0.25 + calculate_keyword_complexity t n * 0.30
      + calculate_code_complexity rt q * 0.25 + calculate_question_complexity t * 0.20"
  define s1 where "s1 = (if mode = str ''tools'' then s * 1.2 else s)"
  have unfold: "analyze_complexity rt q mode =
      (if q = [] then 0.1 else if n = 0 then 0.1 else max 0.0 (min 1.0 s1))"
    by (simp only: analyze_complexity_def Let_def t_def n_def s_def s1_def)
  have l: "0.1 \<le> calculate_length_complexity n"
    by (rule calculate_length_complexity_floor)
  have k: "0 \<le> calculate_keyword_complexity t n"
    by (rule calculate_keyword_complexity_nonneg)
  have c: "0 \<le> calculate_code_complexity rt q"
    by (rule calculate_code_complexity_nonneg)
  have u: "0 \<le> calculate_question_complexity t"
    by (rule calculate_question_complexity_nonneg)
  have s: "0.025 \<le> s"
    unfolding s_def using l k c u by simp
  then have "0.025 \<le> s1"
    unfolding s1_def by simp
  then have lo: "0.025 \<le> max 0.0 (min 1.0 s1)"
    by (rule clamp_floor)
  have hi: "max 0.0 (min 1.0 s1) \<le> 1"
    by simp
  define r where "r = max 0.0 (min 1.0 s1)"
  have "0.025 \<le> r" "r \<le> 1"
    using lo hi by (simp_all only: r_def)
  then show ?thesis
    unfolding unfold r_def [symmetric] by simp
qed

lemma analyze_complexity_empty: "analyze_complexity rt [] mode = 0.1"
  by (simp add: analyze_complexity_def)

lemma adaptive_percentages_value:
  assumes "c \<noteq> 0"
  shows "adaptive_percentages im c =
     Inr ((base_budgets im)\<lparr>
        response_generation :=
          response_min (adaptive_ranges im)
            + c * (response_max (adaptive_ranges im) - response_min (adaptive_ranges im)),
        conversation_memory :=
          memory_max (adaptive_ranges im)
            - c\<^sup>2 * (memory_max (adaptive_ranges im) - memory_min (adaptive_ranges im))\<rparr>)"
  using assms
  by (cases im) (simp_all add: adaptive_percentages_def py_truediv_def Let_def power2_eq_square)

lemma analyze_hi: "analyze_complexity ascii_runtime (str ''hi'') (str ''chat'') = 1 / 40"
  by (simp add: analyze_complexity_def ascii_runtime_def str_def str_strip_def isspace_def
      ascii_lower_def calculate_length_complexity_def SHORT_QUERY_def
      calculate_keyword_complexity_def ANALYSIS_KEYWORDS_def str_count_def
      calculate_code_complexity_def CODE_PATTERNS_def calculate_question_complexity_def
      QUESTION_INDICATORS_def question_words_def Let_def)

lemma mode_chat: "interaction_mode_of ascii_runtime (str ''chat'') = CHAT"
  by (simp add: interaction_mode_of_def ascii_runtime_def str_def ascii_lower_def)

lemma py_int_mono: "x \<le> y \<Longrightarrow> py_int x \<le> py_int y"
proof -
  assume xy: "x \<le> y"
  consider "0 \<le> x" | "x < 0" "0 \<le> y" | "y < 0" using xy by linarith
  then show ?thesis
  proof cases
    case 1
    then show ?thesis using xy by (simp add: py_int_def floor_mono)
  next
    case 2
    have "\<lceil>x\<rceil> \<le> 0" using 2(1) by (simp add: ceiling_le_zero)
    moreover have "0 \<le> \<lfloor>y\<rfloor>" using 2(2) by simp
    ultimately have "\<lceil>x\<rceil> \<le> \<lfloor>y\<rfloor>" by linarith
    then show ?thesis using 2 by (simp add: py_int_def)
  next
    case 3
    then show ?thesis using xy by (simp add: py_int_def ceiling_mono)
  qed
qed

lemma token_share_mono: "0 \<le> w \<Longrightarrow> p \<le> q \<Longrightarrow> token_share w p \<le> token_share w q"
  unfolding token_share_def
  by (intro py_int_mono mult_left_mono divide_right_mono) simp_all

lemma to_tokens_value:
  "to_tokens w p =
     (if - float_int_limit < w \<and> w < float_int_limit then Inr (token_share w p)
      else Inl OverflowError)"
  by (simp add: to_tokens_def py_float_def token_share_def)

lemma absolute_budgets_value:
  "absolute_budgets w p =
     (if - float_int_limit < w \<and> w < float_int_limit then Inr (token_shares w p)
      else Inl OverflowError)"
  by (simp add: absolute_budgets_def to_tokens_value token_shares_def)

lemma initial_budgets_value:
  "initial_budgets rt w mode q =
     (if - float_int_limit < w \<and> w < float_int_limit
      then Inr (token_shares w ((base_budgets (interaction_mode_of rt mode))\<lparr>
        response_generation :=
          response_min (adaptive_ranges (interaction_mode_of rt mode))
            + analyze_complexity rt q mode
              * (response_max (adaptive_ranges (interaction_mode_of rt mode))
                 - response_min (adaptive_ranges (interaction_mode_of rt mode))),
        conversation_memory :=
          memory_max (adaptive_ranges (interaction_mode_of rt mode))
            - (analyze_complexity rt q mode)\<^sup>2
              * (memory_max (adaptive_ranges (interaction_mode_of rt mode))
                 - memory_min (adaptive_ranges (interaction_mode_of rt mode)))\<rparr>))
      else Inl OverflowError)"
proof -
  have "analyze_complexity rt q mode \<noteq> 0"
    using analyze_complexity_bounds [of rt q mode] by auto
  then show ?thesis
    by (simp add: initial_budgets_def adaptive_percentages_value absolute_budgets_value)
qed

lemma small_window: "- float_int_limit < 1000" "1000 < float_int_limit"
    "- float_int_limit < 10" "10 < float_int_limit"
  by (simp_all add: float_int_limit_def)

lemma initial_response_floor:
  assumes "0 \<le> w" and "initial_budgets rt w mode q = Inr b0"
  shows "py_int (real_of_int w * 0.10) \<le> response_generation b0"
proof -
  define c where "c = analyze_complexity rt q mode"
  define im where "im = interaction_mode_of rt mode"
  have c: "0 \<le> c"
    using analyze_complexity_bounds [of rt q mode] by (simp add: c_def)
  have r: "response_generation b0 =
      token_share w (response_min (adaptive_ranges im)
        + c * (response_max (adaptive_ranges im) - response_min (adaptive_ranges im)))"
    using assms(2) unfolding initial_budgets_value c_def im_def
    by (auto simp: token_shares_def split: if_splits)
  have "10 \<le> response_min (adaptive_ranges im)
        + c * (response_max (adaptive_ranges im) - response_min (adaptive_ranges im))"
    using c by (cases im) simp_all
  then have "token_share w 10 \<le> response_generation b0"
    unfolding r by (rule token_share_mono [OF assms(1)])
  then show ?thesis by (simp add: token_share_def)
qed

lemma initial_reserved:
  assumes "initial_budgets rt w mode q = Inr b0"
  shows "reserved b0 = token_share w (reserved (base_budgets (interaction_mode_of rt mode)))"
  using assms unfolding initial_budgets_value by (auto simp: token_shares_def split: if_splits)

lemma calculate_from_initial:
  "initial_budgets rt w mode q = Inr b0 \<Longrightarrow>
   calculate_adaptive_budgets rt w mode q m = Inr (ensure_minimum_memory w m b0)"
  by (simp add: calculate_adaptive_budgets_def)

text \<open>The allocations for the query \<open>hi\<close> in chat mode at windows of 1000 and 10.\<close>

lemma initial_hi_1000:
  "initial_budgets ascii_runtime 1000 (str ''chat'') (str ''hi'') =
     Inr \<lparr>system_prompt = 6, tool_definitions = 0, conversation_memory = 499,
          response_generation = 122, safety_margin = 50, reserved = 4\<rparr>"
  by (simp add: initial_budgets_value small_window analyze_hi mode_chat token_shares_def
      token_share_def py_int_def power2_eq_square)

lemma calculate_hi_1000_600:
  "calculate_adaptive_budgets ascii_runtime 1000 (str ''chat'') (str ''hi'') 600 =
     Inr \<lparr>system_prompt = 6, tool_definitions = 0, conversation_memory = 600,
          response_generation = 100, safety_margin = 50, reserved = 20\<rparr>"
  by (simp add: calculate_adaptive_budgets_def initial_hi_1000 ensure_minimum_memory_def
      Let_def py_int_def)

lemma initial_hi_10:
  "initial_budgets ascii_runtime 10 (str ''chat'') (str ''hi'') =
     Inr \<lparr>system_prompt = 0, tool_definitions = 0, conversation_memory = 4,
          response_generation = 1, safety_margin = 0, reserved = 0\<rparr>"
  by (simp add: initial_budgets_value small_window analyze_hi mode_chat token_shares_def
      token_share_def py_int_def power2_eq_square)

text \<open>
  C1. For a positive context window and a minimum memory above the conversation memory of
  the initial allocation (whatever its relation to the window), the function returns an
  allocation whose conversation memory is the minimum asked for, whose reserved bucket is
  not negative and whose response bucket is at least \<open>int(0.10 * context_window)\<close>.
\<close>

theorem minimum_memory_override:
  assumes "0 < w" and "initial_budgets rt w mode q = Inr b0" and "conversation_memory b0 < m"
  shows "\<exists>b. calculate_adaptive_budgets rt w mode q m = Inr b
      \<and> conversation_memory b = m \<and> 0 \<le> reserved b
      \<and> py_int (real_of_int w * 0.10) \<le> response_generation b"
proof -
  let ?b = "ensure_minimum_memory w m b0"
  have fl: "py_int (real_of_int w * 0.10) \<le> response_generation b0"
    using initial_response_floor [OF _ assms(2)] assms(1) by simp
  have "conversation_memory ?b = m \<and> 0 \<le> reserved ?b
      \<and> py_int (real_of_int w * 0.10) \<le> response_generation ?b"
  proof (cases "reserved b0 \<ge> m - conversation_memory b0")
    case True
    then show ?thesis
      using assms(3) fl by (simp add: ensure_minimum_memory_def Let_def)
  next
    case False
    then show ?thesis
      using assms(3) by (simp add: ensure_minimum_memory_def Let_def)
  qed
  then show ?thesis
    using calculate_from_initial [OF assms(2)] by simp
qed

text \<open>
  At a window of 1000, chat mode, the query \<open>hi\<close> and a minimum of 600 the initial
  conversation memory is 499 and the result holds 600, 20 reserved and 100 for the response.
\<close>

theorem minimum_memory_override_witness:
  "(0::int) < 1000
   \<and> map_sum id conversation_memory
       (initial_budgets ascii_runtime 1000 (str ''chat'') (str ''hi'')) = Inr 499
   \<and> (499::int) < 600
   \<and> map_sum id (\<lambda>b. (conversation_memory b, reserved b, response_generation b))
       (calculate_adaptive_budgets ascii_runtime 1000 (str ''chat'') (str ''hi'') 600)
         = Inr (600, 20, 100)
   \<and> py_int (real_of_int 1000 * 0.10) = 100"
proof -
  have a: "(0::int) < 1000" by simp
  have c: "conversation_memory \<lparr>system_prompt = 6, tool_definitions = 0,
          conversation_memory = 499, response_generation = 122, safety_margin = 50,
          reserved = (4::int)\<rparr> < 600" by simp
  from minimum_memory_override [OF a initial_hi_1000 c] show ?thesis
    by (simp add: initial_hi_1000 calculate_hi_1000_600 py_int_def)
qed

text \<open>
  C9, as the code has it. For every query, mode and minimum, and every window (positive
  or not) whose magnitude is below \<open>2 ^ 1024 - 2 ^ 970\<close>, the function returns an
  allocation and raises nothing: the complexity of any query is at least 0.025, and that
  of the empty query is 0.1, so the divisor \<open>adaptive_response - response_min\<close> is never
  zero.
\<close>

theorem budgets_never_raise:
  assumes "- float_int_limit < w" and "w < float_int_limit"
  shows "(\<exists>b. calculate_adaptive_budgets rt w mode q m = Inr b)
   \<and> 0.025 \<le> analyze_complexity rt q mode
   \<and> analyze_complexity rt [] mode = 0.1"
  using analyze_complexity_bounds [of rt q mode] assms
  by (simp add: calculate_adaptive_budgets_def initial_budgets_value analyze_complexity_empty)

text \<open>
  At a window of 1000, chat mode and the query \<open>hi\<close> the function returns an allocation
  with 499 tokens of conversation memory; the complexity of \<open>hi\<close> is 0.025.
\<close>

theorem budgets_never_raise_witness:
  "- float_int_limit < 1000 \<and> 1000 < float_int_limit
   \<and> map_sum id conversation_memory
       (calculate_adaptive_budgets ascii_runtime 1000 (str ''chat'') (str ''hi'') 0) = Inr 499
   \<and> analyze_complexity ascii_runtime (str ''hi'') (str ''chat'') = 0.025"
proof -
  from budgets_never_raise [OF small_window(1,2), of ascii_runtime "str ''chat''" "str ''hi''" 0]
  show ?thesis
    by (simp add: small_window calculate_adaptive_budgets_def initial_hi_1000
        ensure_minimum_memory_def analyze_hi)
qed

text \<open>
  C9 as stated fails: at the positive window \<open>2 ^ 1024\<close> (chat mode, the query \<open>hi\<close>, no
  minimum) the conversion to tokens raises \<open>OverflowError\<close>.
\<close>

theorem budgets_overflow_counterexample:
  "(0::int) < 2 ^ 1024
   \<and> calculate_adaptive_budgets ascii_runtime (2 ^ 1024) (str ''chat'') (str ''hi'') 0
       = Inl OverflowError"
  by (simp add: calculate_adaptive_budgets_def initial_budgets_value float_int_limit_def)

lemma memory_percentage_value:
  "memory_percentage rt mode q =
     Inr (memory_max (adaptive_ranges (interaction_mode_of rt mode))
          - (analyze_complexity rt q mode)\<^sup>2
            * (memory_max (adaptive_ranges (interaction_mode_of rt mode))
               - memory_min (adaptive_ranges (interaction_mode_of rt mode))))"
proof -
  have "analyze_complexity rt q mode \<noteq> 0"
    using analyze_complexity_bounds [of rt q mode] by auto
  then show ?thesis
    by (simp add: memory_percentage_def adaptive_percentages_value)
qed

text \<open>
  C2, as the code has it. The memory percentage is \<open>memory_max\<close> less the square of the
  complexity times \<open>memory_max - memory_min\<close>; it stays at or above \<open>memory_min\<close> and
  below \<open>memory_max\<close> (chat: 38 and 50, tools: 45 and 55).
\<close>

theorem memory_percentage_quadratic:
  "memory_percentage rt mode q =
     Inr (memory_max (adaptive_ranges (interaction_mode_of rt mode))
          - (analyze_complexity rt q mode)\<^sup>2
            * (memory_max (adaptive_ranges (interaction_mode_of rt mode))
               - memory_min (adaptive_ranges (interaction_mode_of rt mode))))
   \<and> memory_min (adaptive_ranges (interaction_mode_of rt mode))
       \<le> memory_max (adaptive_ranges (interaction_mode_of rt mode))
          - (analyze_complexity rt q mode)\<^sup>2
            * (memory_max (adaptive_ranges (interaction_mode_of rt mode))
               - memory_min (adaptive_ranges (interaction_mode_of rt mode)))
   \<and> memory_max (adaptive_ranges (interaction_mode_of rt mode))
          - (analyze_complexity rt q mode)\<^sup>2
            * (memory_max (adaptive_ranges (interaction_mode_of rt mode))
               - memory_min (adaptive_ranges (interaction_mode_of rt mode)))
       < memory_max (adaptive_ranges (interaction_mode_of rt mode))
   \<and> memory_min (adaptive_ranges CHAT) = 38 \<and> memory_max (adaptive_ranges CHAT) = 50
   \<and> memory_min (adaptive_ranges TOOLS) = 45 \<and> memory_max (adaptive_ranges TOOLS) = 55"
proof -
  define c where "c = analyze_complexity rt q mode"
  have c: "0 < c" "c \<le> 1"
    using analyze_complexity_bounds [of rt q mode] by (simp_all add: c_def)
  have sq: "0 < c\<^sup>2" "c\<^sup>2 \<le> 1"
    using c by (simp_all add: power_le_one)
  have "memory_min (adaptive_ranges im) \<le> memory_max (adaptive_ranges im)
          - c\<^sup>2 * (memory_max (adaptive_ranges im) - memory_min (adaptive_ranges im))
      \<and> memory_max (adaptive_ranges im)
          - c\<^sup>2 * (memory_max (adaptive_ranges im) - memory_min (adaptive_ranges im))
        < memory_max (adaptive_ranges im)" for im
    using sq by (cases im) simp_all
  then show ?thesis
    by (simp add: memory_percentage_value c_def)
qed

text \<open>
  C2 as stated fails: for the query \<open>hi\<close> in chat mode (complexity 0.025) the code computes
  49.9925 percent, and the linear formula gives 49.7.
\<close>

theorem memory_percentage_counterexample:
  "memory_percentage ascii_runtime (str ''chat'') (str ''hi'') = Inr (49.9925)
   \<and> memory_max (adaptive_ranges CHAT)
       - analyze_complexity ascii_runtime (str ''hi'') (str ''chat'')
         * (memory_max (adaptive_ranges CHAT) - memory_min (adaptive_ranges CHAT)) = 49.7"
  by (simp add: memory_percentage_value analyze_hi mode_chat power2_eq_square)

lemma py_int_div50: "0 \<le> w \<Longrightarrow> py_int (real_of_int w / 50) = w div 50"
proof -
  assume "0 \<le> w"
  have "\<lfloor>real_of_int w / real_of_int 50\<rfloor> = w div 50"
    by (simp only: floor_divide_of_int_eq)
  then show ?thesis using \<open>0 \<le> w\<close> by (simp add: py_int_def)
qed

lemma py_int_fiftieth: "0 \<le> w \<Longrightarrow> py_int (real_of_int w * 0.02) = w div 50"
  using py_int_div50 [of w] by simp

lemma token_share_chat_reserved: "0 \<le> w \<Longrightarrow> token_share w 0.4 = w div 250"
proof -
  assume "0 \<le> w"
  have "real_of_int w * (0.4 / 100.0) = real_of_int w / real_of_int 250" by simp
  then have "\<lfloor>real_of_int w * (0.4 / 100.0)\<rfloor> = w div 250"
    by (simp only: floor_divide_of_int_eq)
  then show ?thesis using \<open>0 \<le> w\<close> by (simp add: token_share_def py_int_def)
qed

lemma token_share_zero: "token_share w 0 = 0"
  by (simp add: token_share_def py_int_def)

text \<open>
  C10, as the code has it. For a positive window, when the shortfall exceeds the reserved
  bucket the result's reserved bucket is exactly \<open>int(0.02 * context_window)\<close> and the
  sum of the buckets grows by at least that much. In chat mode the reserved bucket was
  \<open>int(0.004 * context_window)\<close>: from a window of 50 on it is raised and the sum
  increases, below 50 both values are 0. In tools mode it was 0.
\<close>

theorem reclaim_sets_reserved:
  assumes "0 < w" and "initial_budgets rt w mode q = Inr b0"
    and "reserved b0 < m - conversation_memory b0"
  shows "\<exists>b. calculate_adaptive_budgets rt w mode q m = Inr b
      \<and> reserved b = py_int (real_of_int w * 0.02)
      \<and> total_allocated b0 + reserved b \<le> total_allocated b
      \<and> (if interaction_mode_of rt mode = CHAT
          then reserved b0 = py_int (real_of_int w * 0.004)
               \<and> (if 50 \<le> w
                   then reserved b0 < reserved b \<and> total_allocated b0 < total_allocated b
                   else reserved b = reserved b0)
          else reserved b0 = 0)"
proof -
  let ?b = "ensure_minimum_memory w m b0"
  have w0: "0 \<le> w" using assms(1) by simp
  have r0: "reserved b0 = (if interaction_mode_of rt mode = CHAT then w div 250 else 0)"
    using initial_reserved [OF assms(2)] token_share_chat_reserved [OF w0]
    by (cases "interaction_mode_of rt mode") (simp_all add: token_share_zero)
  then have r0n: "0 \<le> reserved b0" using w0 by (simp add: pos_imp_zdiv_nonneg_iff)
  have sh: "conversation_memory b0 < m" using assms(3) r0n by linarith
  have nb: "\<not> m - conversation_memory b0 \<le> reserved b0" using assms(3) by linarith
  have res: "reserved ?b = w div 50"
    using sh nb w0 by (simp add: ensure_minimum_memory_def Let_def py_int_div50
        pos_imp_zdiv_nonneg_iff)
  have cm: "conversation_memory ?b = m"
    using sh nb by (simp add: ensure_minimum_memory_def Let_def)
  have rg: "response_generation b0 - (m - conversation_memory b0 - reserved b0)
      \<le> response_generation ?b"
    using sh nb by (simp add: ensure_minimum_memory_def Let_def)
  have same: "system_prompt ?b = system_prompt b0" "tool_definitions ?b = tool_definitions b0"
      "safety_margin ?b = safety_margin b0"
    by (simp_all add: ensure_minimum_memory_def Let_def)
  have tot: "total_allocated b0 + reserved ?b \<le> total_allocated ?b"
    unfolding total_allocated_def same cm using rg by linarith
  have split250: "w div 250 = w div 50 div 5"
    using zdiv_zmult2_eq [of 5 w 50] by simp
  have lt: "50 \<le> w \<Longrightarrow> w div 250 < w div 50"
  proof -
    assume "50 \<le> w"
    then have "50 div 50 \<le> w div 50" by (intro zdiv_mono1) simp_all
    then have "1 \<le> w div 50" by simp
    then have "w div 50 div 5 < w div 50" by linarith
    then show ?thesis by (simp only: split250)
  qed
  have z: "\<not> 50 \<le> w \<Longrightarrow> w div 250 = 0 \<and> w div 50 = 0" using w0 by simp
  have chat: "interaction_mode_of rt mode = CHAT \<Longrightarrow>
      reserved b0 = py_int (real_of_int w * 0.004)
      \<and> (if 50 \<le> w then reserved b0 < reserved ?b \<and> total_allocated b0 < total_allocated ?b
          else reserved ?b = reserved b0)"
  proof -
    assume c: "interaction_mode_of rt mode = CHAT"
    have a: "reserved b0 = py_int (real_of_int w * 0.004)"
      using initial_reserved [OF assms(2)] c by (simp add: token_share_def)
    have b: "50 \<le> w \<Longrightarrow> reserved b0 < reserved ?b \<and> total_allocated b0 < total_allocated ?b"
      using lt r0 c res tot r0n by auto
    have d: "\<not> 50 \<le> w \<Longrightarrow> reserved ?b = reserved b0"
      using z r0 c res by simp
    show ?thesis using a b d by simp
  qed
  have tools: "interaction_mode_of rt mode \<noteq> CHAT \<Longrightarrow> reserved b0 = 0"
    using r0 by simp
  have "reserved ?b = py_int (real_of_int w * 0.02)"
    using res py_int_fiftieth [OF w0] by (simp only:)
  then show ?thesis
    using calculate_from_initial [OF assms(2), of m] tot chat tools by auto
qed

text \<open>
  C10 as stated fails at a window of 10: in chat mode with the query \<open>hi\<close> and a minimum
  of 5 the shortfall 1 exceeds the reserved 0, and the reserved bucket is 0 afterwards
  too, not raised.
\<close>

theorem reclaim_small_window_counterexample:
  "map_sum id (\<lambda>b. (conversation_memory b, reserved b))
       (initial_budgets ascii_runtime 10 (str ''chat'') (str ''hi'')) = Inr (4, 0)
   \<and> map_sum id reserved
       (calculate_adaptive_budgets ascii_runtime 10 (str ''chat'') (str ''hi'') 5) = Inr 0"
  by (simp add: calculate_adaptive_budgets_def initial_hi_10 ensure_minimum_memory_def
      Let_def py_int_def)

text \<open>
  At a window of 1000, chat mode, the query \<open>hi\<close> and a minimum of 600 the reserved
  bucket goes from 4 to 20 and the sum of the buckets from 681 to 776.
\<close>

theorem reclaim_sets_reserved_witness:
  "(0::int) < 1000
   \<and> map_sum id (\<lambda>b. (conversation_memory b, reserved b, total_allocated b))
       (initial_budgets ascii_runtime 1000 (str ''chat'') (str ''hi'')) = Inr (499, 4, 681)
   \<and> map_sum id (\<lambda>b. (reserved b, total_allocated b))
       (calculate_adaptive_budgets ascii_runtime 1000 (str ''chat'') (str ''hi'') 600)
         = Inr (20, 776)"
proof -
  have a: "(0::int) < 1000" by simp
  have c: "reserved \<lparr>system_prompt = 6, tool_definitions = 0, conversation_memory = 499,
          response_generation = 122, safety_margin = 50, reserved = (4::int)\<rparr>
      < 600 - conversation_memory \<lparr>system_prompt = 6, tool_definitions = 0,
          conversation_memory = 499, response_generation = 122, safety_margin = 50,
          reserved = (4::int)\<rparr>" by simp
  from reclaim_sets_reserved [OF a initial_hi_1000 c] show ?thesis
    by (simp add: initial_hi_1000 calculate_hi_1000_600 total_allocated_def)
qed

section \<open>Preparing the context (unified_memory_manager.py)\<close>

lemma chat_message_tokens: "estimate_exchange_tokens (chat_message r c) = 0"
  by (simp add: estimate_exchange_tokens_def chat_message_def)

lemma turn_message_tokens: "list_all (\<lambda>e. estimate_exchange_tokens e = 0) (turn_message r d)"
  by (simp add: turn_message_def chat_message_tokens split: option.splits)

lemma build_context_messages_tokens:
  "list_all (\<lambda>e. estimate_exchange_tokens e = 0) (build_context_messages h)"
  by (induction h) (simp_all add: turn_message_tokens)

lemma trim_loop_zero:
  "list_all (\<lambda>e. estimate_exchange_tokens e = 0) xs \<Longrightarrow> cur \<le> b \<Longrightarrow>
   trim_loop xs b acc cur = rev xs @ acc"
  by (induction xs arbitrary: acc) (simp_all add: Let_def)

text \<open>
  The messages built for the model have no \<open>user\<close> or \<open>assistant\<close> key, so each of
  them counts as 0 tokens and trimming them to a positive budget drops nothing.
\<close>

lemma retrim_is_identity:
  "0 < b \<Longrightarrow> trim_conversation_to_budget (build_context_messages h) b = build_context_messages h"
  using trim_loop_zero [of "rev (build_context_messages h)" 0 b "[]"]
    build_context_messages_tokens [of h]
  by (simp add: trim_conversation_to_budget_def)

lemma estimate_tokens_a600: "estimate_tokens (str_repeat (str ''a'') 600) = 309"
proof -
  have "estimate_tokens (replicate 600 97) = 309"
    by (subst estimate_tokens_letters [OF _ letter_a]) (simp_all add: py_int_def)
  then show ?thesis by (simp add: str_repeat_single str_def)
qed

lemma estimate_tokens_b600: "estimate_tokens (str_repeat (str ''b'') 600) = 309"
proof -
  have "estimate_tokens (replicate 600 98) = 309"
    by (subst estimate_tokens_letters [OF _ letter_b]) (simp_all add: py_int_def)
  then show ?thesis by (simp add: str_repeat_single str_def)
qed

lemma long_turn_history:
  "get_conversation_history long_turn_files (str ''m'') =
     [stored_exchange (str ''t'') (str_repeat (str ''a'') 600) 150
        (str_repeat (str ''b'') 600) 150]"
  by (simp add: long_turn_files_def ModelSpecificMemory_add_exchange_def
      get_conversation_history_def stored_exchange_def fallback_tokens_def length_str_repeat
      str_def)

lemma nonempty_a600: "str_repeat (str ''a'') 600 \<noteq> []" "str_repeat (str ''b'') 600 \<noteq> []"
  using length_str_repeat [of "str ''a''" 600] length_str_repeat [of "str ''b''" 600]
  by (auto simp: str_def)

lemma long_turn_within_budget:
  "get_conversation_within_budget long_turn_files (str ''m'') 499 0 =
     [stored_exchange (str ''t'') (str_repeat (str ''a'') 600) 150
        (str_repeat (str ''b'') 600) 150]"
  by (simp add: get_conversation_within_budget_def long_turn_history Let_def
      trim_conversation_to_budget_def estimate_exchange_tokens_def turn_tokens_def
      stored_exchange_def)

lemma long_turn_messages:
  "build_context_messages
     [stored_exchange (str ''t'') (str_repeat (str ''a'') 600) 150
        (str_repeat (str ''b'') 600) 150] =
     [chat_message ''user'' (str_repeat (str ''a'') 600),
      chat_message ''assistant'' (str_repeat (str ''b'') 600)]"
  by (simp add: stored_exchange_def turn_message_def nonempty_a600)

lemma long_turn_estimate:
  "estimate_conversation_tokens
     [chat_message ''user'' (str_repeat (str ''a'') 600),
      chat_message ''assistant'' (str_repeat (str ''b'') 600)] = 618"
  by (simp add: estimate_conversation_tokens_def message_tokens_def chat_message_def
      estimate_tokens_a600 estimate_tokens_b600)

lemma calculate_hi_1000_0:
  "calculate_adaptive_budgets ascii_runtime 1000 (str ''chat'') (str ''hi'') 0 =
     Inr \<lparr>system_prompt = 6, tool_definitions = 0, conversation_memory = 499,
          response_generation = 122, safety_margin = 50, reserved = 4\<rparr>"
  by (simp add: calculate_adaptive_budgets_def initial_hi_1000 ensure_minimum_memory_def)

text \<open>
  C7 fails on the code. With one stored exchange of two 600-character turns (150 stored
  tokens each), the query \<open>hi\<close>, chat mode and a window of 1000, the memory budget is 499
  and the returned messages are estimated at 618 tokens.
\<close>

theorem prepare_context_over_budget:
  "map_sum id (\<lambda>r. (estimate_conversation_tokens (context_messages r),
                       conversation_memory (budgets r)))
     (prepare_context_for_model ascii_runtime long_turn_files (str ''m'') (str ''hi'')
        (str ''chat'') 1000 0) = Inr (618, 499)"
proof -
  have re: "trim_conversation_to_budget
      [chat_message ''user'' (str_repeat (str ''a'') 600),
       chat_message ''assistant'' (str_repeat (str ''b'') 600)] 499
    = [chat_message ''user'' (str_repeat (str ''a'') 600),
       chat_message ''assistant'' (str_repeat (str ''b'') 600)]"
    using retrim_is_identity [of 499 "[stored_exchange (str ''t'') (str_repeat (str ''a'') 600) 150
        (str_repeat (str ''b'') 600) 150]"]
    by (simp only: long_turn_messages)
  show ?thesis
    by (simp add: prepare_context_for_model_def calculate_hi_1000_0 long_turn_within_budget
        long_turn_messages long_turn_estimate re Let_def del: build_context_messages.simps)
qed

end
